theory Spec2Isabelle
  imports Main
begin

section \<open>Argument mappers of \<open>rpl/mappers.h\<close>\<close>

text \<open>
  The header defines four class templates derived from the empty struct \<open>base_mapper\<close>
  (positional selectors, value wrappers, unary and binary composers), one free operator
  template per supported operator, and the names \<open>$1\<close> .. \<open>$20\<close> and \<open>$val\<close>.

  Everything is resolved by the compiler: a call that the templates' enablement
  conditions remove from the overload set has no result at all.  The model writes this
  as \<open>None\<close>; \<open>Some v\<close> is the value a viable call returns.  Argument lists are
  heterogeneous in the source; here their elements are taken from one value universe
  \<open>'v\<close>.
\<close>

subsection \<open>Positional selector: \<open>argument_mapper<Index>\<close>\<close>

text \<open>
  \<open>argument_mapper<Index>::call(arg, args...)\<close> for \<open>Index > 0\<close> is enabled when
  \<open>sizeof...(args) >= Index\<close> and forwards to \<open>argument_mapper<Index - 1>::call(args...)\<close>;
  \<open>argument_mapper<0>::call(arg, args...)\<close> returns \<open>arg\<close>.  Both need a first argument.
\<close>

fun argument_mapper_call :: "nat \<Rightarrow> 'a list \<Rightarrow> 'a option" where
  "argument_mapper_call 0 (arg # args) = Some arg"
| "argument_mapper_call (Suc n) (arg # args) =
     (if length args \<ge> Suc n then argument_mapper_call n args else None)"
| "argument_mapper_call n [] = None"

text \<open>
  \<open>argument_mapper<Index>::operator()(args...)\<close> for \<open>Index > 0\<close> is enabled when
  \<open>sizeof...(args) > Index\<close> and returns \<open>call(args...)\<close>;
  \<open>argument_mapper<0>::operator()(arg, args...)\<close> returns \<open>arg\<close>.
\<close>

fun argument_mapper_invoke :: "nat \<Rightarrow> 'a list \<Rightarrow> 'a option" where
  "argument_mapper_invoke 0 (arg # args) = Some arg"
| "argument_mapper_invoke 0 [] = None"
| "argument_mapper_invoke (Suc n) args =
     (if length args > Suc n then argument_mapper_call (Suc n) args else None)"

subsection \<open>Value wrapper: \<open>value_mapper<Type>\<close>\<close>

text \<open>
  The constructor stores its argument in \<open>_value\<close>; \<open>operator()(args...)\<close> accepts any
  argument pack and returns \<open>_value\<close>.
\<close>

definition value_mapper_invoke :: "'v \<Rightarrow> 'a list \<Rightarrow> 'v option" where
  "value_mapper_invoke stored args = Some stored"

subsection \<open>Operators and the function objects that stand for them\<close>

text \<open>
  The operator tokens for which the header declares a free operator template, and the
  function object types of \<open><functional>\<close> it instantiates the composers with.
\<close>

datatype binary_operator =
  Add | Sub | Mul | Div | Rem
  | Lt | Le | Gt | Ge | Eq | Ne
  | LogicalAnd | LogicalOr
  | BitAnd | BitOr | BitXor

datatype unary_operator = Neg | LogicalNot | BitNot

datatype binary_functor =
  std_plus | std_minus | std_multiplies | std_divides | std_modulus
  | std_less | std_less_equal | std_greater | std_greater_equal
  | std_equal_to | std_not_equal_to
  | std_logical_and | std_logical_or
  | std_bit_and | std_bit_or | std_bit_xor

datatype unary_functor = std_negate | std_logical_not | std_bit_not

text \<open>
  The transparent function objects of the standard library (not repository code):
  \<open>std::plus<>{}(a, b)\<close> is \<open>a + b\<close>, \<open>std::negate<>{}(a)\<close> is \<open>-a\<close>, and so on,
  each for the operator it is named after.
\<close>

fun binary_functor_operator :: "binary_functor \<Rightarrow> binary_operator" where
  "binary_functor_operator std_plus = Add"
| "binary_functor_operator std_minus = Sub"
| "binary_functor_operator std_multiplies = Mul"
| "binary_functor_operator std_divides = Div"
| "binary_functor_operator std_modulus = Rem"
| "binary_functor_operator std_less = Lt"
| "binary_functor_operator std_less_equal = Le"
| "binary_functor_operator std_greater = Gt"
| "binary_functor_operator std_greater_equal = Ge"
| "binary_functor_operator std_equal_to = Eq"
| "binary_functor_operator std_not_equal_to = Ne"
| "binary_functor_operator std_logical_and = LogicalAnd"
| "binary_functor_operator std_logical_or = LogicalOr"
| "binary_functor_operator std_bit_and = BitAnd"
| "binary_functor_operator std_bit_or = BitOr"
| "binary_functor_operator std_bit_xor = BitXor"

fun unary_functor_operator :: "unary_functor \<Rightarrow> unary_operator" where
  "unary_functor_operator std_negate = Neg"
| "unary_functor_operator std_logical_not = LogicalNot"
| "unary_functor_operator std_bit_not = BitNot"


section \<open>The capability predicate and the wrapping rule, on types\<close>

text \<open>
  \<open>is_mapper_v\<close> and \<open>wrap_mapper\<close> compute on types.  A type is an object or function
  type with its \<open>const\<close> and \<open>volatile\<close> qualifiers and, possibly, a reference to it:
  \<open>Qualified c v r T\<close> is \<open>T\<close> qualified \<open>const\<close> when \<open>c\<close>, \<open>volatile\<close> when \<open>v\<close>,
  and an lvalue or rvalue reference to that according to \<open>r\<close>.  The classes are those
  of the header, with their template arguments, and classes declared elsewhere, given
  with their direct base classes.
\<close>

datatype ref_qualifier = no_ref | lvalue_ref | rvalue_ref

datatype cpp_type =
  fundamental string
  | pointer qualified_type
  | array qualified_type nat
  | function_type string
  | class_base_mapper
  | class_argument_mapper nat
  | class_value_mapper qualified_type
  | class_unary_operator_mapper qualified_type unary_functor
  | class_binary_operator_mapper qualified_type qualified_type binary_functor
  | class_other string "cpp_type list"
and qualified_type = Qualified bool bool ref_qualifier cpp_type

definition unqualified :: "cpp_type \<Rightarrow> qualified_type" where
  "unqualified T = Qualified False False no_ref T"

text \<open>
  Forming qualified types (rules of the language, not repository code): a qualifier
  applied to a reference type is ignored, \<open>&\<close> applied to any reference gives an lvalue
  reference, \<open>&&\<close> applied to a reference leaves it as it is.
\<close>

fun add_const :: "qualified_type \<Rightarrow> qualified_type" where
  "add_const (Qualified c v r T) = (if r = no_ref then Qualified True v r T else Qualified c v r T)"

fun add_volatile :: "qualified_type \<Rightarrow> qualified_type" where
  "add_volatile (Qualified c v r T) =
     (if r = no_ref then Qualified c True r T else Qualified c v r T)"

fun add_lvalue_reference :: "qualified_type \<Rightarrow> qualified_type" where
  "add_lvalue_reference (Qualified c v r T) = Qualified c v lvalue_ref T"

fun add_rvalue_reference :: "qualified_type \<Rightarrow> qualified_type" where
  "add_rvalue_reference (Qualified c v r T) =
     Qualified c v (if r = no_ref then rvalue_ref else r) T"

fun qualify :: "bool \<Rightarrow> bool \<Rightarrow> qualified_type \<Rightarrow> qualified_type" where
  "qualify c v (Qualified c' v' r T) =
     (if r = no_ref then Qualified (c \<or> c') (v \<or> v') r T else Qualified c' v' r T)"

text \<open>
  \<open>std::decay_t\<close> (standard library, not repository code): the reference is removed;
  then an array becomes a pointer to its element (the qualifiers of an array are those
  of its elements), a function a pointer to it, and any other type loses its top-level
  qualifiers.
\<close>

fun decay_t :: "qualified_type \<Rightarrow> cpp_type" where
  "decay_t (Qualified c v r (array element n)) = pointer (qualify c v element)"
| "decay_t (Qualified c v r (function_type f)) = pointer (Qualified False False no_ref (function_type f))"
| "decay_t (Qualified c v r T) = T"

text \<open>
  The class declarations of the header: \<open>struct base_mapper {}\<close>,
  \<open>struct argument_mapper : base_mapper\<close>, \<open>class value_mapper : public base_mapper\<close>,
  \<open>class unary_operator_mapper : public base_mapper\<close> and
  \<open>class binary_operator_mapper : public base_mapper\<close>.
\<close>

fun is_class :: "cpp_type \<Rightarrow> bool" where
  "is_class class_base_mapper = True"
| "is_class (class_argument_mapper n) = True"
| "is_class (class_value_mapper T) = True"
| "is_class (class_unary_operator_mapper T f) = True"
| "is_class (class_binary_operator_mapper L R f) = True"
| "is_class (class_other name bases) = True"
| "is_class T = False"

text \<open>\<open>has_base B D\<close>: \<open>B\<close> is a direct or indirect base class of \<open>D\<close>.\<close>

fun has_base :: "cpp_type \<Rightarrow> cpp_type \<Rightarrow> bool" where
  "has_base B (class_argument_mapper n) = (B = class_base_mapper)"
| "has_base B (class_value_mapper T) = (B = class_base_mapper)"
| "has_base B (class_unary_operator_mapper T f) = (B = class_base_mapper)"
| "has_base B (class_binary_operator_mapper L R f) = (B = class_base_mapper)"
| "has_base B (class_other name bases) = list_ex (\<lambda>D. D = B \<or> has_base B D) bases"
| "has_base B D = False"

text \<open>
  \<open>std::is_base_of_v<Base, Derived>\<close> (standard library, not repository code): true when
  \<open>Base\<close> is a base class of \<open>Derived\<close>, and also when both name the same class.
\<close>

definition is_base_of_v :: "cpp_type \<Rightarrow> cpp_type \<Rightarrow> bool" where
  "is_base_of_v Base Derived =
     (is_class Base \<and> is_class Derived \<and> (Base = Derived \<or> has_base Base Derived))"

text \<open>\<open>is_mapper_v<Type> = std::is_base_of_v<base_mapper, std::decay_t<Type>>\<close>.\<close>

definition is_mapper_v :: "qualified_type \<Rightarrow> bool" where
  "is_mapper_v Type = is_base_of_v class_base_mapper (decay_t Type)"

text \<open>
  \<open>wrap_mapper<Type>::type = std::conditional_t<is_mapper_v<Type>, Type, value_mapper<Type>>\<close>.
\<close>

definition wrap_mapper_t :: "qualified_type \<Rightarrow> qualified_type" where
  "wrap_mapper_t Type =
     (if is_mapper_v Type then Type else unqualified (class_value_mapper Type))"

section \<open>Mappers and their invocation\<close>

subsection \<open>What the argument and operand types supply\<close>

text \<open>
  What the operators do on the operands' own types is not part of the header: it is a
  parameter.  \<open>binary_native nv op a b\<close> is the value of the operator \<open>op\<close> applied to
  the values \<open>a\<close> and \<open>b\<close>, and \<open>None\<close> where that has no value.  So are the value that
  a move constructor leaves in the object it moved from (\<open>after_move\<close>), the type of
  an object (\<open>type_of\<close>), and what the \<open>operator()\<close> of a class that this header does
  not define returns (\<open>call_foreign\<close>; \<open>None\<close> when the class has none, as
  \<open>base_mapper\<close> itself).
\<close>

record 'v natives =
  unary_native :: "unary_operator \<Rightarrow> 'v \<Rightarrow> 'v option"
  binary_native :: "binary_operator \<Rightarrow> 'v \<Rightarrow> 'v \<Rightarrow> 'v option"
  after_move :: "'v \<Rightarrow> 'v"
  type_of :: "'v \<Rightarrow> cpp_type"
  call_foreign :: "'v \<Rightarrow> 'v list \<Rightarrow> 'v option"

definition call_binary_functor ::
  "'v natives \<Rightarrow> binary_functor \<Rightarrow> 'v \<Rightarrow> 'v \<Rightarrow> 'v option" where
  "call_binary_functor nv f a b = binary_native nv (binary_functor_operator f) a b"

definition call_unary_functor :: "'v natives \<Rightarrow> unary_functor \<Rightarrow> 'v \<Rightarrow> 'v option" where
  "call_unary_functor nv f a = unary_native nv (unary_functor_operator f) a"

subsection \<open>The mapper classes\<close>

text \<open>
  One constructor per class template derived from \<open>base_mapper\<close>, with its template
  arguments and data members: \<open>argument_mapper<Index>\<close> has no member,
  \<open>value_mapper<Type>\<close> holds \<open>_value\<close>, \<open>unary_operator_mapper<Type, Operator>\<close>
  holds the wrapped operand \<open>_value\<close>, and
  \<open>binary_operator_mapper<Left, Right, Operator>\<close> holds the wrapped operands
  \<open>_left\<close> and \<open>_right\<close>.  A wrapped operand of a composer may also be an object of
  \<open>base_mapper\<close> itself or of a class derived from it that the header does not define
  (\<open>is_mapper_v\<close> holds of both): \<open>foreign_mapper\<close>.
\<close>

datatype 'v mapper =
  argument_mapper nat
  | value_mapper 'v
  | unary_operator_mapper "'v mapper" unary_functor
  | binary_operator_mapper "'v mapper" "'v mapper" binary_functor
  | foreign_mapper 'v

text \<open>
  \<open>invoke nv m args\<close> is what \<open>operator()\<close> returns on arguments that hold the values
  \<open>args\<close> and that no selection consumes: lvalues, \<open>const\<close> arguments, and arguments
  of a type whose move constructor leaves its source as it was.  The composers'
  \<open>operator()\<close> is declared with \<open>Result = decltype(Operator{}(wrapper(args...) ...))\<close>,
  so it is viable only when the inner calls and the operator application are; it
  returns a decayed value.  On arguments of this kind both operands of a binary
  composer read the same values, whichever is evaluated first.  The invocation on
  arguments of any kind is \<open>invoke_forwarded\<close> below; lemma
  \<open>invoke_forwarded_unconsumed\<close> relates the two, and a selector or a value wrapper
  alone returns the same value on arguments of any kind (lemmas
  \<open>selector_value_on_any_arguments\<close> and \<open>value_wrapper_value_on_any_arguments\<close>).
\<close>

fun invoke :: "'v natives \<Rightarrow> 'v mapper \<Rightarrow> 'v list \<Rightarrow> 'v option" where
  "invoke nv (argument_mapper n) args = argument_mapper_invoke n args"
| "invoke nv (value_mapper stored) args = value_mapper_invoke stored args"
| "invoke nv (unary_operator_mapper inner f) args =
     (case invoke nv inner args of
        None \<Rightarrow> None
      | Some a \<Rightarrow> call_unary_functor nv f a)"
| "invoke nv (binary_operator_mapper left right f) args =
     (case invoke nv left args of
        None \<Rightarrow> None
      | Some a \<Rightarrow>
          (case invoke nv right args of
             None \<Rightarrow> None
           | Some b \<Rightarrow> call_binary_functor nv f a b))"
| "invoke nv (foreign_mapper object) args = call_foreign nv object args"

text \<open>\<open>make_value_mapper(value)\<close> builds a \<open>value_mapper\<close> of the decayed type from the value.\<close>

definition make_value_mapper :: "'v \<Rightarrow> 'v mapper" where
  "make_value_mapper v = value_mapper v"

subsection \<open>Named instances of namespace \<open>mappers\<close>\<close>

text \<open>
  \<open>$1\<close> .. \<open>$20\<close> are objects of \<open>argument_mapper<0>\<close> .. \<open>argument_mapper<19>\<close>
  (\<open>$\<close> is written \<open>dollar_\<close>); \<open>$val(value)\<close> returns \<open>make_value_mapper(value)\<close>.
\<close>

definition dollar_1 :: "'v mapper" where
  "dollar_1 = argument_mapper 0"

definition dollar_2 :: "'v mapper" where
  "dollar_2 = argument_mapper 1"

definition dollar_3 :: "'v mapper" where
  "dollar_3 = argument_mapper 2"

definition dollar_4 :: "'v mapper" where
  "dollar_4 = argument_mapper 3"

definition dollar_5 :: "'v mapper" where
  "dollar_5 = argument_mapper 4"

definition dollar_6 :: "'v mapper" where
  "dollar_6 = argument_mapper 5"

definition dollar_7 :: "'v mapper" where
  "dollar_7 = argument_mapper 6"

definition dollar_8 :: "'v mapper" where
  "dollar_8 = argument_mapper 7"

definition dollar_9 :: "'v mapper" where
  "dollar_9 = argument_mapper 8"

definition dollar_10 :: "'v mapper" where
  "dollar_10 = argument_mapper 9"

definition dollar_11 :: "'v mapper" where
  "dollar_11 = argument_mapper 10"

definition dollar_12 :: "'v mapper" where
  "dollar_12 = argument_mapper 11"

definition dollar_13 :: "'v mapper" where
  "dollar_13 = argument_mapper 12"

definition dollar_14 :: "'v mapper" where
  "dollar_14 = argument_mapper 13"

definition dollar_15 :: "'v mapper" where
  "dollar_15 = argument_mapper 14"

definition dollar_16 :: "'v mapper" where
  "dollar_16 = argument_mapper 15"

definition dollar_17 :: "'v mapper" where
  "dollar_17 = argument_mapper 16"

definition dollar_18 :: "'v mapper" where
  "dollar_18 = argument_mapper 17"

definition dollar_19 :: "'v mapper" where
  "dollar_19 = argument_mapper 18"

definition dollar_20 :: "'v mapper" where
  "dollar_20 = argument_mapper 19"

definition dollar_val :: "'v \<Rightarrow> 'v mapper" where
  "dollar_val v = make_value_mapper v"

text \<open>The twenty selectors in the order of their declarations.\<close>

definition selectors :: "'v mapper list" where
  "selectors =
     [dollar_1, dollar_2, dollar_3, dollar_4, dollar_5,
      dollar_6, dollar_7, dollar_8, dollar_9, dollar_10,
      dollar_11, dollar_12, dollar_13, dollar_14, dollar_15,
      dollar_16, dollar_17, dollar_18, dollar_19, dollar_20]"

section \<open>Selectors on references\<close>

text \<open>
  Every parameter of \<open>call\<close> and \<open>operator()\<close> is a forwarding reference: it refers to
  the caller's object, as an lvalue or as an rvalue, \<open>const\<close> or not.  Objects live in a
  store.
\<close>

type_synonym address = nat

type_synonym 'v store = "address \<Rightarrow> 'v"

datatype value_category = lvalue | rvalue

datatype reference =
  Reference (category: value_category) (is_const: bool) (target: address)

text \<open>
  What a function hands back in a generic context: the reference itself when its
  return type is \<open>decltype(auto)\<close> and it returns \<open>std::forward<Arg>(arg)\<close>, a new object
  when its return type is \<open>auto\<close>.
\<close>

datatype 'v returned = returned_reference reference | returned_value 'v

text \<open>
  \<open>static constexpr decltype(auto) call(Arg &&arg, Args &&...args)\<close>: the selected
  reference, of the category it was passed with.
\<close>

definition argument_mapper_call_returned :: "nat \<Rightarrow> reference list \<Rightarrow> 'v returned option" where
  "argument_mapper_call_returned n refs =
     map_option returned_reference (argument_mapper_call n refs)"

text \<open>
  \<open>constexpr auto operator()(Args &&...args) const\<close>: the returned object is initialised
  from the selected reference, by copy from an lvalue or a \<open>const\<close> rvalue and by move
  from any other rvalue.  \<open>moved_from x\<close> is what the argument type's move constructor
  leaves in an object that held \<open>x\<close>; it is a parameter.
\<close>

definition argument_mapper_invoke_returned ::
  "('v \<Rightarrow> 'v) \<Rightarrow> 'v store \<Rightarrow> nat \<Rightarrow> reference list \<Rightarrow> ('v returned \<times> 'v store) option" where
  "argument_mapper_invoke_returned moved_from st n refs =
     map_option
       (\<lambda>r. (returned_value (st (target r)),
             if category r = rvalue \<and> \<not> is_const r
             then st(target r := moved_from (st (target r)))
             else st))
       (argument_mapper_invoke n refs)"

text \<open>
  Assigning \<open>v\<close> through what was returned: through a reference the assignment reaches
  the object referred to; a returned object is a temporary of its own.
\<close>

fun assign_through :: "'v returned \<Rightarrow> 'v \<Rightarrow> 'v store \<Rightarrow> 'v store" where
  "assign_through (returned_reference r) v st = st(target r := v)"
| "assign_through (returned_value x) v st = st"

section \<open>Invocation on forwarded arguments\<close>

text \<open>
  \<open>operator()\<close> of every mapper class takes its arguments by forwarding reference, and
  a composer passes \<open>std::forward<Args>(args)...\<close> on to its operands.  An outcome of an
  invocation is the value returned together with the store left behind, or \<open>None\<close>
  when the invocation has no result.
\<close>

type_synonym 'v outcome = "('v \<times> 'v store) option"

definition outcome_value :: "'v outcome \<Rightarrow> 'v option" where
  "outcome_value outcome = map_option fst outcome"

text \<open>
  A selector: \<open>operator()\<close> of \<open>argument_mapper\<close> as modelled above, with the move
  constructor of the argument's type.
\<close>

definition select_forwarded ::
  "'v natives \<Rightarrow> nat \<Rightarrow> reference list \<Rightarrow> 'v store \<Rightarrow> 'v outcome" where
  "select_forwarded nv n refs st =
     (case argument_mapper_invoke_returned (after_move nv) st n refs of
        Some (returned_value v, st') \<Rightarrow> Some (v, st')
      | _ \<Rightarrow> None)"

text \<open>\<open>unary_operator_mapper::operator()\<close>: the operator applied to what the operand returned.\<close>

definition apply_unary :: "'v natives \<Rightarrow> unary_functor \<Rightarrow> 'v outcome \<Rightarrow> 'v outcome" where
  "apply_unary nv f outcome =
     (case outcome of
        None \<Rightarrow> None
      | Some (a, s) \<Rightarrow> map_option (\<lambda>v. (v, s)) (call_unary_functor nv f a))"

text \<open>
  \<open>binary_operator_mapper::operator()\<close> returns
  \<open>(Operator{})(_left(std::forward<Args>(args)...), _right(std::forward<Args>(args)...))\<close>:
  the same references are forwarded to both operands, so the operand that is evaluated
  second runs in the store that the first one left behind, and the order of the two is
  either one (see the section on operands with effects).  \<open>second_operand\<close> continues
  from an outcome of the operand evaluated first.
\<close>

definition second_operand ::
  "('v \<Rightarrow> 'v \<Rightarrow> 'v option) \<Rightarrow> ('v store \<Rightarrow> 'v outcome list) \<Rightarrow> 'v outcome
    \<Rightarrow> 'v outcome list" where
  "second_operand combine operand first =
     (case first of
        None \<Rightarrow> [None]
      | Some (x, s1) \<Rightarrow>
          map (\<lambda>second.
                 case second of
                   None \<Rightarrow> None
                 | Some (y, s2) \<Rightarrow> map_option (\<lambda>v. (v, s2)) (combine x y))
              (operand s1))"

text \<open>
  A foreign mapper is taken to read its arguments and to leave them as they are.
\<close>

primrec invoke_forwarded ::
  "'v natives \<Rightarrow> 'v mapper \<Rightarrow> reference list \<Rightarrow> 'v store \<Rightarrow> 'v outcome list" where
  "invoke_forwarded nv (argument_mapper n) refs st = [select_forwarded nv n refs st]"
| "invoke_forwarded nv (value_mapper stored) refs st = [Some (stored, st)]"
| "invoke_forwarded nv (unary_operator_mapper inner f) refs st =
     map (apply_unary nv f) (invoke_forwarded nv inner refs st)"
| "invoke_forwarded nv (binary_operator_mapper left right f) refs st =
     concat (map (second_operand (\<lambda>a b. call_binary_functor nv f a b)
                    (invoke_forwarded nv right refs))
                 (invoke_forwarded nv left refs st))
     @ concat (map (second_operand (\<lambda>b a. call_binary_functor nv f a b)
                      (invoke_forwarded nv left refs))
                   (invoke_forwarded nv right refs st))"
| "invoke_forwarded nv (foreign_mapper object) refs st =
     [map_option (\<lambda>v. (v, st)) (call_foreign nv object (map (\<lambda>r. st (target r)) refs))]"


section \<open>Operands and the operator templates\<close>

text \<open>
  An operand of an operator template is an expression: an lvalue or an rvalue,
  \<open>const\<close> or not, of an object.  The object is of one of the mapper classes of the
  header (\<open>Mapper\<close>), or anything else (\<open>Plain\<close>): a value of any other type, an object
  of \<open>base_mapper\<close> itself or of a class derived from it elsewhere.
\<close>

datatype 'v object = Mapper "'v mapper" | Plain 'v

datatype 'v operand =
  Operand (operand_category: value_category) (operand_const: bool)
    (operand_object: "'v object")

text \<open>
  The class of a mapper object.  The template arguments of a composer are written as
  the classes of its members; \<open>is_mapper_v\<close>, which is all that this class is used for,
  does not look at them.
\<close>

fun mapper_class :: "'v natives \<Rightarrow> 'v mapper \<Rightarrow> cpp_type" where
  "mapper_class nv (argument_mapper n) = class_argument_mapper n"
| "mapper_class nv (value_mapper stored) = class_value_mapper (unqualified (type_of nv stored))"
| "mapper_class nv (unary_operator_mapper inner f) =
     class_unary_operator_mapper (unqualified (mapper_class nv inner)) f"
| "mapper_class nv (binary_operator_mapper left right f) =
     class_binary_operator_mapper
       (unqualified (mapper_class nv left)) (unqualified (mapper_class nv right)) f"
| "mapper_class nv (foreign_mapper object) = type_of nv object"

fun object_class :: "'v natives \<Rightarrow> 'v object \<Rightarrow> cpp_type" where
  "object_class nv (Mapper m) = mapper_class nv m"
| "object_class nv (Plain v) = type_of nv v"

text \<open>
  The template argument deduced for a parameter \<open>Type &&value\<close> (rule of the language):
  \<open>T &\<close> from an lvalue of type \<open>T\<close> and \<open>T\<close> from an rvalue, \<open>const\<close> when the operand
  is.
\<close>

definition operand_type :: "'v natives \<Rightarrow> 'v operand \<Rightarrow> qualified_type" where
  "operand_type nv x =
     Qualified (operand_const x) False
       (case operand_category x of lvalue \<Rightarrow> lvalue_ref | rvalue \<Rightarrow> no_ref)
       (object_class nv (operand_object x))"

text \<open>The enablement condition of the operator templates: \<open>is_mapper_v\<close> of the deduced type.\<close>

definition is_mapper :: "'v natives \<Rightarrow> 'v operand \<Rightarrow> bool" where
  "is_mapper nv x = is_mapper_v (operand_type nv x)"

text \<open>
  A composer's member has type \<open>wrap_mapper_t<std::decay_t<Type>>\<close> and is initialised
  with \<open>std::forward<OtherType>(value)\<close>.

  When the member has the operand's own class, this is an initialisation of an object
  from an expression of its class, and overload resolution chooses among the
  constructors of the class (rules of the language).  \<open>value_mapper\<close> and
  \<open>unary_operator_mapper\<close> declare a constructor template with one parameter
  \<open>OtherType &&value\<close>, beside their implicit copy and move constructors.  For a
  \<open>const\<close> lvalue and for an rvalue that is not \<open>const\<close> a copy or move constructor
  matches as well as the template and is preferred.  For an lvalue that is not
  \<open>const\<close> the template's \<open>T &\<close> is a better match than the copy constructor's
  \<open>const T &\<close>, and for a \<open>const\<close> rvalue its \<open>const T &&\<close> is a better match than
  \<open>const T &\<close>: the template is selected, initialises \<open>_value\<close> from the mapper
  itself, and the program is ill-formed.  \<open>argument_mapper\<close> declares no constructor
  and \<open>binary_operator_mapper\<close> only one with two parameters; a foreign class is
  taken to be copyable.
\<close>

definition copy_selected :: "value_category \<Rightarrow> bool \<Rightarrow> bool" where
  "copy_selected cat is_const_operand \<longleftrightarrow>
     (cat = lvalue \<and> is_const_operand) \<or> (cat = rvalue \<and> \<not> is_const_operand)"

fun has_forwarding_constructor :: "'v mapper \<Rightarrow> bool" where
  "has_forwarding_constructor (value_mapper stored) = True"
| "has_forwarding_constructor (unary_operator_mapper inner f) = True"
| "has_forwarding_constructor (argument_mapper n) = False"
| "has_forwarding_constructor (binary_operator_mapper left right f) = False"
| "has_forwarding_constructor (foreign_mapper object) = False"

text \<open>
  The member initialised from an operand; \<open>None\<close> when the initialisation is
  ill-formed.  An operand of any other type goes into a \<open>value_mapper\<close> through that
  constructor template; one whose type satisfies \<open>is_mapper_v\<close> is kept as it is.
\<close>

fun wrap :: "'v natives \<Rightarrow> 'v operand \<Rightarrow> 'v mapper option" where
  "wrap nv (Operand cat c (Mapper m)) =
     (if has_forwarding_constructor m \<and> \<not> copy_selected cat c then None else Some m)"
| "wrap nv (Operand cat c (Plain v)) =
     Some (if is_mapper_v (unqualified (decay_t (operand_type nv (Operand cat c (Plain v)))))
           then foreign_mapper v else value_mapper v)"

text \<open>
  The functor each operator template instantiates its composer with, as written in
  the header (\<open>operator+\<close> with \<open>std::plus<>\<close>, \<open>operator<=\<close> with \<open>std::less_equal<>\<close>, ...).
\<close>

fun binary_operator_functor :: "binary_operator \<Rightarrow> binary_functor" where
  "binary_operator_functor Add = std_plus"
| "binary_operator_functor Sub = std_minus"
| "binary_operator_functor Mul = std_multiplies"
| "binary_operator_functor Div = std_divides"
| "binary_operator_functor Rem = std_modulus"
| "binary_operator_functor Lt = std_less"
| "binary_operator_functor Le = std_less_equal"
| "binary_operator_functor Gt = std_greater"
| "binary_operator_functor Ge = std_greater_equal"
| "binary_operator_functor Eq = std_equal_to"
| "binary_operator_functor Ne = std_not_equal_to"
| "binary_operator_functor LogicalAnd = std_logical_and"
| "binary_operator_functor LogicalOr = std_logical_or"
| "binary_operator_functor BitAnd = std_bit_and"
| "binary_operator_functor BitOr = std_bit_or"
| "binary_operator_functor BitXor = std_bit_xor"

fun unary_operator_functor :: "unary_operator \<Rightarrow> unary_functor" where
  "unary_operator_functor Neg = std_negate"
| "unary_operator_functor LogicalNot = std_logical_not"
| "unary_operator_functor BitNot = std_bit_not"


text \<open>
  \<open>operator OP(left, right)\<close>: enabled when \<open>is_mapper_v<Left> || is_mapper_v<Right>\<close>;
  returns a \<open>binary_operator_mapper\<close> constructed from both operands.  The unary
  templates are enabled when \<open>is_mapper_v<Type>\<close>.  The template is not a candidate
  (and the expression means whatever it means without this header), or it is selected
  and its instantiation is ill-formed, or it returns the composer.
\<close>

datatype 'a built = not_a_candidate | ill_formed | built 'a

definition operator_binary ::
  "'v natives \<Rightarrow> binary_operator \<Rightarrow> 'v operand \<Rightarrow> 'v operand \<Rightarrow> 'v mapper built" where
  "operator_binary nv op left right =
     (if is_mapper nv left \<or> is_mapper nv right
      then (case wrap nv left of
              None \<Rightarrow> ill_formed
            | Some l \<Rightarrow>
                (case wrap nv right of
                   None \<Rightarrow> ill_formed
                 | Some r \<Rightarrow> built (binary_operator_mapper l r (binary_operator_functor op))))
      else not_a_candidate)"

definition operator_unary ::
  "'v natives \<Rightarrow> unary_operator \<Rightarrow> 'v operand \<Rightarrow> 'v mapper built" where
  "operator_unary nv op operand =
     (if is_mapper nv operand
      then (case wrap nv operand of
              None \<Rightarrow> ill_formed
            | Some inner \<Rightarrow> built (unary_operator_mapper inner (unary_operator_functor op)))
      else not_a_candidate)"

section \<open>Binary composers on operands with effects\<close>

text \<open>
  An operand that is not pure: invoked with the arguments in a state, it returns a
  value and a new state.  \<open>probe name result\<close> appends its name and the arguments it got
  to a log.
\<close>

type_synonym ('v, 's) effectful = "'v list \<Rightarrow> 's \<Rightarrow> 'v \<times> 's"

definition probe :: "string \<Rightarrow> 'v \<Rightarrow> ('v, (string \<times> 'v list) list) effectful" where
  "probe name result args log = (result, log @ [(name, args)])"

text \<open>
  \<open>binary_operator_mapper::operator()\<close> returns
  \<open>(Operator{})(_left(std::forward<Args>(args)...), _right(std::forward<Args>(args)...))\<close>.
  The two operand calls are the arguments of one function call, and the language does
  not order the evaluation of the arguments of a call (the initialisations of the
  parameters are indeterminately sequenced: one is complete before the other starts,
  in either order).  The outcomes are therefore two: \<open>_left\<close> first, or \<open>_right\<close> first.
\<close>

definition left_then_right ::
  "'v natives \<Rightarrow> binary_functor \<Rightarrow> ('v, 's) effectful \<Rightarrow> ('v, 's) effectful
    \<Rightarrow> 'v list \<Rightarrow> 's \<Rightarrow> 'v option \<times> 's" where
  "left_then_right nv f left right args s =
     (case left args s of (a, s1) \<Rightarrow>
        (case right args s1 of (b, s2) \<Rightarrow> (call_binary_functor nv f a b, s2)))"

definition right_then_left ::
  "'v natives \<Rightarrow> binary_functor \<Rightarrow> ('v, 's) effectful \<Rightarrow> ('v, 's) effectful
    \<Rightarrow> 'v list \<Rightarrow> 's \<Rightarrow> 'v option \<times> 's" where
  "right_then_left nv f left right args s =
     (case right args s of (b, s1) \<Rightarrow>
        (case left args s1 of (a, s2) \<Rightarrow> (call_binary_functor nv f a b, s2)))"

definition binary_operator_mapper_outcomes ::
  "'v natives \<Rightarrow> binary_functor \<Rightarrow> ('v, 's) effectful \<Rightarrow> ('v, 's) effectful
    \<Rightarrow> 'v list \<Rightarrow> 's \<Rightarrow> ('v option \<times> 's) list" where
  "binary_operator_mapper_outcomes nv f left right args s =
     [left_then_right nv f left right args s, right_then_left nv f left right args s]"

section \<open>An instance: \<open>int\<close>, \<open>bool\<close> and \<open>std::string\<close>\<close>

text \<open>
  For evaluating examples, the built-in operators of the language (not repository code)
  on \<open>bool\<close> and a 32-bit \<open>int\<close>, and the operators of \<open>std::string\<close>: \<open>bool\<close> operands
  of arithmetic, comparison and bitwise operators are promoted to \<open>int\<close>, operands of
  the logical operators are converted to \<open>bool\<close>, division truncates, and an \<open>int\<close>
  expression whose value is not representable (or divides by zero) has no defined
  value; strings are concatenated by \<open>+\<close> and compared character by character.  A
  string that was moved from is empty, as the implementations in use leave it; an
  \<open>int\<close> or \<open>bool\<close> is unchanged.  \<open>MarkerV\<close> is an object of \<open>base_mapper\<close>, which has
  no \<open>operator()\<close>.
\<close>

datatype cpp_value = IntV int | BoolV bool | StrV string | MarkerV

fun as_int :: "cpp_value \<Rightarrow> int option" where
  "as_int (IntV i) = Some i"
| "as_int (BoolV b) = Some (if b then 1 else 0)"
| "as_int (StrV s) = None"
| "as_int MarkerV = None"

fun as_bool :: "cpp_value \<Rightarrow> bool option" where
  "as_bool (IntV i) = Some (i \<noteq> 0)"
| "as_bool (BoolV b) = Some b"
| "as_bool (StrV s) = None"
| "as_bool MarkerV = None"

definition int_value :: "int \<Rightarrow> cpp_value option" where
  "int_value i = (if - 2147483648 \<le> i \<and> i \<le> 2147483647 then Some (IntV i) else None)"

definition truncated_quotient :: "int \<Rightarrow> int \<Rightarrow> int" where
  "truncated_quotient a b = sgn a * sgn b * (\<bar>a\<bar> div \<bar>b\<bar>)"

fun int_binary :: "binary_operator \<Rightarrow> int \<Rightarrow> int \<Rightarrow> cpp_value option" where
  "int_binary Add a b = int_value (a + b)"
| "int_binary Sub a b = int_value (a - b)"
| "int_binary Mul a b = int_value (a * b)"
| "int_binary Div a b = (if b = 0 then None else int_value (truncated_quotient a b))"
| "int_binary Rem a b =
     (if b = 0 then None
      else (case int_value (truncated_quotient a b) of
              None \<Rightarrow> None
            | Some q \<Rightarrow> int_value (a - b * truncated_quotient a b)))"
| "int_binary Lt a b = Some (BoolV (a < b))"
| "int_binary Le a b = Some (BoolV (a \<le> b))"
| "int_binary Gt a b = Some (BoolV (a > b))"
| "int_binary Ge a b = Some (BoolV (a \<ge> b))"
| "int_binary Eq a b = Some (BoolV (a = b))"
| "int_binary Ne a b = Some (BoolV (a \<noteq> b))"
| "int_binary LogicalAnd a b = Some (BoolV (a \<noteq> 0 \<and> b \<noteq> 0))"
| "int_binary LogicalOr a b = Some (BoolV (a \<noteq> 0 \<or> b \<noteq> 0))"
| "int_binary BitAnd a b = int_value (and a b)"
| "int_binary BitOr a b = int_value (or a b)"
| "int_binary BitXor a b = int_value (xor a b)"

fun string_less :: "string \<Rightarrow> string \<Rightarrow> bool" where
  "string_less s [] = False"
| "string_less [] (y # t) = True"
| "string_less (x # s) (y # t) =
     ((of_char x :: nat) < of_char y \<or> (x = y \<and> string_less s t))"

fun string_binary :: "binary_operator \<Rightarrow> string \<Rightarrow> string \<Rightarrow> cpp_value option" where
  "string_binary Add s t = Some (StrV (s @ t))"
| "string_binary Lt s t = Some (BoolV (string_less s t))"
| "string_binary Le s t = Some (BoolV (\<not> string_less t s))"
| "string_binary Gt s t = Some (BoolV (string_less t s))"
| "string_binary Ge s t = Some (BoolV (\<not> string_less s t))"
| "string_binary Eq s t = Some (BoolV (s = t))"
| "string_binary Ne s t = Some (BoolV (s \<noteq> t))"
| "string_binary op s t = None"

fun cpp_binary :: "binary_operator \<Rightarrow> cpp_value \<Rightarrow> cpp_value \<Rightarrow> cpp_value option" where
  "cpp_binary op (StrV s) (StrV t) = string_binary op s t"
| "cpp_binary op a b =
     (case as_int a of
        None \<Rightarrow> None
      | Some i \<Rightarrow> (case as_int b of None \<Rightarrow> None | Some j \<Rightarrow> int_binary op i j))"

fun cpp_unary :: "unary_operator \<Rightarrow> cpp_value \<Rightarrow> cpp_value option" where
  "cpp_unary Neg a = (case as_int a of None \<Rightarrow> None | Some i \<Rightarrow> int_value (- i))"
| "cpp_unary LogicalNot a =
     (case as_bool a of None \<Rightarrow> None | Some b \<Rightarrow> Some (BoolV (\<not> b)))"
| "cpp_unary BitNot a = (case as_int a of None \<Rightarrow> None | Some i \<Rightarrow> int_value (not i))"

fun cpp_after_move :: "cpp_value \<Rightarrow> cpp_value" where
  "cpp_after_move (StrV s) = StrV []"
| "cpp_after_move v = v"

fun cpp_type_of :: "cpp_value \<Rightarrow> cpp_type" where
  "cpp_type_of (IntV i) = fundamental ''int''"
| "cpp_type_of (BoolV b) = fundamental ''bool''"
| "cpp_type_of (StrV s) = class_other ''std::string'' []"
| "cpp_type_of MarkerV = class_base_mapper"

definition cpp_natives :: "cpp_value natives" where
  "cpp_natives =
     \<lparr>unary_native = cpp_unary, binary_native = cpp_binary, after_move = cpp_after_move,
      type_of = cpp_type_of, call_foreign = (\<lambda>object args. None)\<rparr>"


definition cpp_logical_or :: "cpp_value option \<Rightarrow> cpp_value option \<Rightarrow> cpp_value option" where
  "cpp_logical_or left right =
     (case Option.bind left as_bool of
        None \<Rightarrow> None
      | Some True \<Rightarrow> Some (BoolV True)
      | Some False \<Rightarrow> map_option BoolV (Option.bind right as_bool))"

section \<open>Properties\<close>

lemma argument_mapper_call_nth:
  "n < length args \<Longrightarrow> argument_mapper_call n args = Some (args ! n)"
proof (induction n args rule: argument_mapper_call.induct)
  case (1 arg args)
  show ?case by simp
next
  case (2 n arg args)
  then show ?case by simp
next
  case (3 n)
  then show ?case by simp
qed

lemma argument_mapper_invoke_nth:
  "n < length args \<Longrightarrow> argument_mapper_invoke n args = Some (args ! n)"
proof (cases n)
  case 0
  assume "n < length args"
  with 0 obtain arg rest where "args = arg # rest" by (cases args) auto
  with 0 show ?thesis by simp
next
  case (Suc k)
  assume "n < length args"
  with Suc show ?thesis by (simp add: argument_mapper_call_nth)
qed

lemma argument_mapper_call_short:
  "length args \<le> n \<Longrightarrow> argument_mapper_call n args = None"
  by (cases n; cases args) auto

lemma argument_mapper_invoke_short:
  "length args \<le> n \<Longrightarrow> argument_mapper_invoke n args = None"
  by (cases n; cases args) auto



lemma selectors_enum: "(selectors :: 'v mapper list) = map argument_mapper [0..<20]"
  by (simp add: selectors_def upt_rec dollar_1_def dollar_2_def dollar_3_def dollar_4_def dollar_5_def
   dollar_6_def dollar_7_def dollar_8_def dollar_9_def dollar_10_def dollar_11_def dollar_12_def
   dollar_13_def dollar_14_def dollar_15_def dollar_16_def dollar_17_def dollar_18_def dollar_19_def dollar_20_def)

lemma decay_t_cases:
  "decay_t (Qualified c v r U) =
    (case U of array element n \<Rightarrow> pointer (qualify c v element)
     | function_type f \<Rightarrow> pointer (Qualified False False no_ref (function_type f))
     | _ \<Rightarrow> U)"
  by (cases U) simp_all

lemma is_mapper_v_normal:
  "is_mapper_v (Qualified c v r U) = is_base_of_v class_base_mapper U"
  unfolding is_mapper_v_def is_base_of_v_def by (cases U) simp_all

lemma is_mapper_v_ignores_qualifiers:
  "is_mapper_v (Qualified c v r U) = is_mapper_v (Qualified c' v' r' U)"
  by (simp add: is_mapper_v_normal)

text \<open>
  The value a selector returns from references is the value it selects from the
  objects referred to.
\<close>

lemma argument_mapper_invoke_returned_value:
  "map_option fst (argument_mapper_invoke_returned moved_from st n refs)
     = map_option returned_value (argument_mapper_invoke n (map (\<lambda>r. st (target r)) refs))"
proof (cases "n < length refs")
  case True
  then show ?thesis
    by (simp add: argument_mapper_invoke_returned_def argument_mapper_invoke_nth)
next
  case False
  then show ?thesis
    by (simp add: argument_mapper_invoke_returned_def argument_mapper_invoke_short)
qed

lemma is_mapper_v_value_mapper: "is_mapper_v (unqualified (class_value_mapper T))"
  by (simp add: is_mapper_v_def unqualified_def is_base_of_v_def)

text \<open>
  C1.  For every index \<open>n\<close> and every argument list longer than \<open>n\<close>, the selector
  \<open>argument_mapper<n>\<close> returns the \<open>n\<close>-th argument (counted from 0) as it is, and it
  is computed by \<open>call\<close>: on \<open>first, rest...\<close> index 0 returns \<open>first\<close> and index
  \<open>k + 1\<close> returns what index \<open>k\<close> returns on \<open>rest...\<close>.
\<close>

theorem selector_returns_nth_argument:
  assumes "n < length args"
  shows "invoke nv (argument_mapper n) args = Some (args ! n)
    \<and> argument_mapper_invoke n args = argument_mapper_call n args
    \<and> (case args of
          [] \<Rightarrow> False
        | first # rest \<Rightarrow>
            argument_mapper_call n args =
              (case n of 0 \<Rightarrow> Some first | Suc k \<Rightarrow> argument_mapper_call k rest))"
proof -
  from assms obtain first rest where args: "args = first # rest"
    by (cases args) auto
  have sel: "argument_mapper_invoke n args = Some (args ! n)"
    using assms by (rule argument_mapper_invoke_nth)
  have cal: "argument_mapper_call n args = Some (args ! n)"
    using assms by (rule argument_mapper_call_nth)
  have step: "argument_mapper_call n (first # rest) =
      (case n of 0 \<Rightarrow> Some first | Suc k \<Rightarrow> argument_mapper_call k rest)"
    using assms args by (cases n) auto
  from sel cal step args show ?thesis by simp
qed

theorem selector_returns_nth_argument_witness:
  "(2::nat) < length [IntV 10, BoolV True, IntV 30, IntV 40]
   \<and> invoke cpp_natives (argument_mapper 2) [IntV 10, BoolV True, IntV 30, IntV 40]
       = Some (IntV 30)
   \<and> argument_mapper_call 2 [IntV 10, BoolV True, IntV 30, IntV 40]
       = argument_mapper_call 1 [BoolV True, IntV 30, IntV 40]"
  using selector_returns_nth_argument
    [of 2 "[IntV 10, BoolV True, IntV 30, IntV 40]" cpp_natives]
  by (simp add: numeral_2_eq_2)

text \<open>
  C2.  A value wrapper built from \<open>v\<close>, invoked with any argument list (the empty one
  included), returns \<open>v\<close> and ignores the arguments.
\<close>

theorem value_mapper_returns_stored_value:
  "invoke nv (value_mapper v) args = Some v \<and> invoke nv (value_mapper v) [] = Some v"
  by (simp add: value_mapper_invoke_def)

text \<open>
  C5.  There are twenty named selectors; the \<open>k\<close>-th of them (\<open>$k\<close>, \<open>k\<close> from 1 to
  20) is \<open>argument_mapper<k - 1>\<close> and returns the \<open>k\<close>-th argument of every list of
  at least \<open>k\<close> arguments; \<open>$val(v)\<close> is a value wrapper holding \<open>v\<close>.
\<close>

theorem named_selectors_and_value_factory:
  fixes nv :: "'v natives"
  shows "length (selectors :: 'v mapper list) = 20
   \<and> (\<forall>k. 1 \<le> k \<and> k \<le> 20 \<longrightarrow> (selectors :: 'v mapper list) ! (k - 1) = argument_mapper (k - 1))
   \<and> (\<forall>k args. 1 \<le> k \<and> k \<le> 20 \<and> k \<le> length args \<longrightarrow>
         invoke nv (selectors ! (k - 1)) args = Some (args ! (k - 1)))
   \<and> dollar_val v = value_mapper v
   \<and> invoke nv (dollar_val v) xs = Some v"
proof -
  have len: "length (selectors :: 'v mapper list) = 20" by (simp add: selectors_enum)
  have nth: "(selectors :: 'v mapper list) ! (k - 1) = argument_mapper (k - 1)"
    if "1 \<le> k" "k \<le> 20" for k
    using that by (simp add: selectors_enum del: upt.simps)
  have sel: "invoke nv (selectors ! (k - 1)) args = Some (args ! (k - 1))"
    if "1 \<le> k" "k \<le> 20" "k \<le> length args" for k and args :: "'v list"
    using that nth [of k] by (simp add: argument_mapper_invoke_nth)
  have val: "dollar_val v = value_mapper v" by (simp add: dollar_val_def make_value_mapper_def)
  from len nth sel val show ?thesis by (simp add: value_mapper_invoke_def)
qed

theorem named_selectors_and_value_factory_witness:
  "length (selectors :: cpp_value mapper list) = 20
   \<and> (selectors :: cpp_value mapper list) ! (20 - 1) = dollar_20
   \<and> invoke cpp_natives dollar_3 [IntV 7, IntV 8, IntV 9] = Some (IntV 9)
   \<and> invoke cpp_natives (dollar_val (BoolV True)) [IntV 7] = Some (BoolV True)"
proof -
  note inst = named_selectors_and_value_factory [where ?'v = cpp_value, of cpp_natives "BoolV True" "[IntV 7]"]
  from inst have a: "(selectors :: cpp_value mapper list) ! (3 - 1) = argument_mapper (3 - 1)"
    by (elim conjE allE [of _ 3]) simp
  from inst have b: "(selectors :: cpp_value mapper list) ! (20 - 1) = argument_mapper (20 - 1)"
    by (elim conjE allE [of _ 20]) simp
  from inst have c: "invoke cpp_natives (selectors ! (3 - 1)) [IntV 7, IntV 8, IntV 9]
      = Some ([IntV 7, IntV 8, IntV 9] ! (3 - 1))"
    by (elim conjE allE [of _ 3] allE [of _ "[IntV 7, IntV 8, IntV 9]"]) simp
  from inst a b c show ?thesis
    by (simp add: dollar_3_def dollar_20_def numeral_2_eq_2 value_mapper_invoke_def)
qed

text \<open>
  C6.  A selector of index \<open>n\<close> applied to at most \<open>n\<close> arguments is not a viable call:
  neither \<open>operator()\<close> nor \<open>call\<close> has a result.  The selector has a result exactly on
  the lists longer than \<open>n\<close>.
\<close>

theorem selector_not_viable_on_short_list:
  fixes nv :: "'v natives"
  shows "(length args \<le> n \<longrightarrow>
          invoke nv (argument_mapper n) args = None \<and> argument_mapper_call n args = None)
    \<and> (invoke nv (argument_mapper n) args \<noteq> None \<longleftrightarrow> n < length args)"
proof -
  have short: "invoke nv (argument_mapper n) args = None \<and> argument_mapper_call n args = None"
    if "length args \<le> n"
    using that by (simp add: argument_mapper_invoke_short argument_mapper_call_short)
  have long: "invoke nv (argument_mapper n) args \<noteq> None" if "n < length args"
    using that by (simp add: argument_mapper_invoke_nth)
  from short long show ?thesis
    by (metis not_le)
qed

theorem selector_not_viable_on_short_list_witness:
  "length [IntV 1, IntV 2] \<le> (2::nat)
   \<and> invoke cpp_natives (argument_mapper 2) [IntV 1, IntV 2] = None
   \<and> argument_mapper_call 2 [IntV 1, IntV 2] = None
   \<and> invoke cpp_natives (argument_mapper 0) [] = None
   \<and> invoke cpp_natives (argument_mapper 1) [IntV 1, IntV 2] \<noteq> None"
  using selector_not_viable_on_short_list [of "[IntV 1, IntV 2]" 2 cpp_natives]
    selector_not_viable_on_short_list [of "[]" 0 cpp_natives]
    selector_not_viable_on_short_list [of "[IntV 1, IntV 2]" 1 cpp_natives]
  by simp

text \<open>
  C8, as the code has it.  The static \<open>call\<close> of a selector keeps the selected argument's
  reference: it returns the very reference it was passed, lvalue or rvalue, so an
  assignment through it reaches the caller's object.  The selector's \<open>operator()\<close>
  returns the selected argument by value, copied from an lvalue and moved from an
  rvalue that is not \<open>const\<close>: an assignment through what it returns leaves the store as
  it is.
\<close>

theorem selector_call_preserves_reference:
  fixes st :: "'v store"
  assumes "n < length refs"
  shows "(argument_mapper_call_returned n refs :: 'v returned option)
        = Some (returned_reference (refs ! n))
    \<and> assign_through (returned_reference (refs ! n)) x st (target (refs ! n)) = x
    \<and> argument_mapper_invoke_returned moved_from st n refs
        = Some (returned_value (st (target (refs ! n))),
                if category (refs ! n) = rvalue \<and> \<not> is_const (refs ! n)
                then st(target (refs ! n) := moved_from (st (target (refs ! n))))
                else st)
    \<and> assign_through (returned_value (st (target (refs ! n)))) x st' = st'"
  using assms
  by (simp add: argument_mapper_call_returned_def argument_mapper_invoke_returned_def
      argument_mapper_call_nth argument_mapper_invoke_nth)

theorem selector_call_preserves_reference_witness:
  "(1::nat) < length [Reference rvalue False 5, Reference lvalue False 7]
   \<and> (argument_mapper_call_returned 1 [Reference rvalue False 5, Reference lvalue False 7]
        :: cpp_value returned option)
       = Some (returned_reference (Reference lvalue False 7))
   \<and> assign_through (returned_reference (Reference lvalue False 7)) (IntV 2) (\<lambda>a. IntV 1) 7
       = IntV 2
   \<and> argument_mapper_invoke_returned (\<lambda>x. x) (\<lambda>a. IntV 1) 1
        [Reference rvalue False 5, Reference lvalue False 7]
       = Some (returned_value (IntV 1), (\<lambda>a. IntV 1))"
proof -
  have h: "(1::nat) < length [Reference rvalue False 5, Reference lvalue False 7]" by simp
  note inst = selector_call_preserves_reference
    [OF h, of "IntV 2" "\<lambda>a. IntV 1" "\<lambda>x. x"]
  from h inst show ?thesis by simp
qed

text \<open>
  C8, as the claim states it, fails: \<open>$1\<close> invoked on an lvalue that refers to an
  object holding 1 returns a new object, and assigning 2 through it does not change
  the caller's object.
\<close>

theorem selector_invocation_returns_a_copy:
  "argument_mapper_invoke_returned (\<lambda>x. x) (\<lambda>a. IntV 1) 0 [Reference lvalue False 0]
     = Some (returned_value (IntV 1), (\<lambda>a. IntV 1))
   \<and> assign_through (returned_value (IntV 1)) (IntV 2) (\<lambda>a. IntV 1) 0 \<noteq> IntV 2"
  by (simp add: argument_mapper_invoke_returned_def)

text \<open>
  C9, as the code has it.  Invoking a binary composer evaluates each operand once, on
  the same argument list, and applies the operator to the left result and the right
  result in that order.  Which operand is evaluated first is not fixed: with two
  probes, the log ends with left then right in one outcome and with right then left in
  the other.  With operands that leave the state alone both outcomes are the same.
\<close>

theorem binary_composer_evaluates_both_operands_once:
  "binary_operator_mapper_outcomes nv f (probe l a) (probe r b) args log
     = [(call_binary_functor nv f a b, log @ [(l, args), (r, args)]),
        (call_binary_functor nv f a b, log @ [(r, args), (l, args)])]
   \<and> binary_operator_mapper_outcomes nv f (\<lambda>xs s. (a, s)) (\<lambda>xs s. (b, s)) args s
     = [(call_binary_functor nv f a b, s), (call_binary_functor nv f a b, s)]"
  by (simp add: binary_operator_mapper_outcomes_def left_then_right_def right_then_left_def
      probe_def)

text \<open>
  C9, as the claim states it, fails: for \<open>probe ''left'' 1 + probe ''right'' 2\<close> there
  is an outcome in which the right probe logs before the left one.
\<close>

theorem right_operand_may_be_evaluated_first:
  "(Some (IntV 3), [(''right'', [IntV 0]), (''left'', [IntV 0])])
     \<in> set (binary_operator_mapper_outcomes cpp_natives std_plus
              (probe ''left'' (IntV 1)) (probe ''right'' (IntV 2)) [IntV 0] [])
   \<and> [(''right'', [IntV 0]), (''left'', [IntV 0])] \<noteq> [(''left'', [IntV 0]), (''right'', [IntV 0])]"
  by (simp add: binary_operator_mapper_outcomes_def right_then_left_def probe_def
      call_binary_functor_def cpp_natives_def int_value_def)

text \<open>
  C10, as the code has it.  \<open>is_mapper_v\<close> does not depend on \<open>const\<close>, \<open>volatile\<close> or
  reference qualification.  It holds exactly of the types that decay to \<open>base_mapper\<close>
  itself or to a class with \<open>base_mapper\<close> among its bases: of every instance of the
  four mapper class templates, and of no fundamental, pointer, array or function type.
\<close>

theorem is_mapper_v_characterised:
  "is_mapper_v (add_const T) = is_mapper_v T
   \<and> is_mapper_v (add_volatile T) = is_mapper_v T
   \<and> is_mapper_v (add_lvalue_reference T) = is_mapper_v T
   \<and> is_mapper_v (add_rvalue_reference T) = is_mapper_v T
   \<and> is_mapper_v (Qualified c v r U) = is_mapper_v (unqualified U)
   \<and> (is_mapper_v T \<longleftrightarrow>
        decay_t T = class_base_mapper \<or> has_base class_base_mapper (decay_t T))
   \<and> is_mapper_v (Qualified c v r (class_argument_mapper n))
   \<and> is_mapper_v (Qualified c v r (class_value_mapper A))
   \<and> is_mapper_v (Qualified c v r (class_unary_operator_mapper A f))
   \<and> is_mapper_v (Qualified c v r (class_binary_operator_mapper A B g))
   \<and> \<not> is_mapper_v (Qualified c v r (fundamental name))
   \<and> \<not> is_mapper_v (Qualified c v r (pointer A))
   \<and> \<not> is_mapper_v (Qualified c v r (array A k))
   \<and> \<not> is_mapper_v (Qualified c v r (function_type name))"
proof -
  obtain c0 v0 r0 U0 where T: "T = Qualified c0 v0 r0 U0" by (cases T)
  have q: "is_mapper_v (add_const T) = is_mapper_v T"
    "is_mapper_v (add_volatile T) = is_mapper_v T"
    "is_mapper_v (add_lvalue_reference T) = is_mapper_v T"
    "is_mapper_v (add_rvalue_reference T) = is_mapper_v T"
    unfolding T by (simp_all add: is_mapper_v_normal)
  have u: "is_mapper_v (Qualified c v r U) = is_mapper_v (unqualified U)"
    unfolding unqualified_def by (rule is_mapper_v_ignores_qualifiers)
  have ch: "is_mapper_v T \<longleftrightarrow>
      decay_t T = class_base_mapper \<or> has_base class_base_mapper (decay_t T)"
    unfolding is_mapper_v_def is_base_of_v_def by (cases "decay_t T") auto
  have yes: "is_mapper_v (Qualified c v r (class_argument_mapper n))"
    "is_mapper_v (Qualified c v r (class_value_mapper A))"
    "is_mapper_v (Qualified c v r (class_unary_operator_mapper A f))"
    "is_mapper_v (Qualified c v r (class_binary_operator_mapper A B g))"
    by (simp_all add: is_mapper_v_normal is_base_of_v_def)
  have no: "\<not> is_mapper_v (Qualified c v r (fundamental name))"
    "\<not> is_mapper_v (Qualified c v r (pointer A))"
    "\<not> is_mapper_v (Qualified c v r (array A k))"
    "\<not> is_mapper_v (Qualified c v r (function_type name))"
    by (simp_all add: is_mapper_v_normal is_base_of_v_def)
  from q u ch yes no show ?thesis by simp
qed

text \<open>
  C10, as the claim states it, fails at the marker: \<open>is_mapper_v<base_mapper>\<close> is true,
  and \<open>base_mapper\<close> is not derived from \<open>base_mapper\<close>.
\<close>

theorem is_mapper_v_of_the_marker_itself:
  "is_mapper_v (unqualified class_base_mapper)
   \<and> \<not> has_base class_base_mapper (decay_t (unqualified class_base_mapper))"
  by (simp add: is_mapper_v_def is_base_of_v_def unqualified_def)

text \<open>
  Invocation on forwarded arguments, and its relation to \<open>invoke\<close>: on arguments that
  no selection consumes, every outcome of \<open>invoke_forwarded\<close> leaves the store as it is
  and has the value that \<open>invoke\<close> computes from the arguments' values.
\<close>

lemma argument_mapper_invoke_map:
  "argument_mapper_invoke n (map f xs) = map_option f (argument_mapper_invoke n xs)"
proof (cases "n < length xs")
  case True
  then show ?thesis by (simp add: argument_mapper_invoke_nth)
next
  case False
  then show ?thesis by (simp add: argument_mapper_invoke_short)
qed

lemma select_forwarded_eq:
  "select_forwarded nv n refs st =
     map_option
       (\<lambda>r. (st (target r),
             if category r = rvalue \<and> \<not> is_const r
             then st(target r := after_move nv (st (target r)))
             else st))
       (argument_mapper_invoke n refs)"
  by (cases "argument_mapper_invoke n refs")
    (simp_all add: select_forwarded_def argument_mapper_invoke_returned_def)



lemma second_operand_single:
  "set (operand s) = {second} \<Longrightarrow>
   set (second_operand combine operand (Some (x, s))) =
     {case second of None \<Rightarrow> None
      | Some (y, s2) \<Rightarrow> map_option (\<lambda>v. (v, s2)) (combine x y)}"
  by (simp add: second_operand_def)



text \<open>
  A selector alone returns the value of the selected argument, and a value wrapper alone
  its stored value, whatever the kinds of the arguments.
\<close>

lemma selector_value_on_any_arguments:
  "map outcome_value (invoke_forwarded nv (argument_mapper n) refs st)
     = [invoke nv (argument_mapper n) (map (\<lambda>r. st (target r)) refs)]"
  by (cases "argument_mapper_invoke n refs")
    (simp_all add: select_forwarded_eq outcome_value_def argument_mapper_invoke_map)

lemma value_wrapper_value_on_any_arguments:
  "map outcome_value (invoke_forwarded nv (value_mapper stored) refs st)
     = [invoke nv (value_mapper stored) (map (\<lambda>r. st (target r)) refs)]"
  by (simp add: outcome_value_def value_mapper_invoke_def)

text \<open>
  The wrapping rule on types, the enablement condition on operands, and what the
  operator templates return.
\<close>

lemma wrap_mapper_t_rule:
  "(is_mapper_v T \<longrightarrow> wrap_mapper_t T = T)
   \<and> (\<not> is_mapper_v T \<longrightarrow> wrap_mapper_t T = unqualified (class_value_mapper T))
   \<and> is_mapper_v (wrap_mapper_t T)
   \<and> wrap_mapper_t (wrap_mapper_t T) = wrap_mapper_t T"
  by (simp add: wrap_mapper_t_def is_mapper_v_value_mapper)

lemma is_mapper_header_object:
  "is_mapper nv (Operand cat c (Mapper (argument_mapper n)))"
  "is_mapper nv (Operand cat c (Mapper (value_mapper stored)))"
  "is_mapper nv (Operand cat c (Mapper (unary_operator_mapper inner f)))"
  "is_mapper nv (Operand cat c (Mapper (binary_operator_mapper left right g)))"
  by (simp_all add: is_mapper_def operand_type_def is_mapper_v_normal is_base_of_v_def)

lemma is_base_of_decay_t:
  "is_base_of_v class_base_mapper (decay_t (Qualified c v r U))
     = is_base_of_v class_base_mapper U"
  using is_mapper_v_normal [of c v r U] by (simp add: is_mapper_v_def)

lemma is_mapper_other_object:
  "is_mapper nv (Operand cat c (Plain v)) = is_base_of_v class_base_mapper (type_of nv v)"
  by (simp add: is_mapper_def operand_type_def is_mapper_v_normal)

lemma wrap_other_object:
  "wrap nv (Operand cat c (Plain v)) =
     Some (if is_base_of_v class_base_mapper (type_of nv v)
           then foreign_mapper v else value_mapper v)"
  by (simp add: operand_type_def unqualified_def is_mapper_v_normal is_base_of_decay_t)

lemma operator_template_candidate:
  "(operator_binary nv op left right = not_a_candidate) = (\<not> (is_mapper nv left \<or> is_mapper nv right))"
  "(operator_unary nv uop left = not_a_candidate) = (\<not> is_mapper nv left)"
  by (simp_all add: operator_binary_def operator_unary_def split: option.splits)

lemma wrap_of_mapper:
  "wrap nv (Operand cat c (Mapper m)) = Some w \<Longrightarrow> w = m"
  "copy_selected cat c \<or> \<not> has_forwarding_constructor m \<Longrightarrow>
     wrap nv (Operand cat c (Mapper m)) = Some m"
  by (auto split: if_splits)

lemma operator_template_builds:
  assumes "is_mapper nv left \<or> is_mapper nv right"
    and "wrap nv left = Some l" and "wrap nv right = Some r"
  shows "operator_binary nv op left right
    = built (binary_operator_mapper l r (binary_operator_functor op))"
  using assms by (simp add: operator_binary_def)







text \<open>
  C4.  The wrapping rule leaves a mapper type as it is and turns any other type into a
  \<open>value_mapper\<close> of it (lemma \<open>wrap_mapper_t_rule\<close>), and the wrapped form of a mapper
  object is to be the mapper itself.  It is, whenever the member can be initialised
  (lemma \<open>wrap_of_mapper\<close>).  For a value wrapper passed as an lvalue that is not
  \<open>const\<close>, as in \<open>auto v = $val(5); $1 + v\<close>, the member has the wrapper's own class
  by the rule on types, and its initialisation is ill-formed: there is no wrapped
  form.  Passed as a \<open>const\<close> lvalue or as an rvalue, the same wrapper is wrapped as
  itself.
\<close>

theorem wrapping_a_mapper_lvalue_is_ill_formed:
  "is_mapper cpp_natives (Operand lvalue False (Mapper (value_mapper (IntV 5))))
   \<and> wrap_mapper_t
       (unqualified (decay_t (operand_type cpp_natives
          (Operand lvalue False (Mapper (value_mapper (IntV 5)))))))
     = unqualified (class_value_mapper (unqualified (fundamental ''int'')))
   \<and> wrap cpp_natives (Operand lvalue False (Mapper (value_mapper (IntV 5)))) = None
   \<and> wrap cpp_natives (Operand lvalue True (Mapper (value_mapper (IntV 5))))
     = Some (value_mapper (IntV 5))
   \<and> wrap cpp_natives (Operand rvalue False (Mapper (value_mapper (IntV 5))))
     = Some (value_mapper (IntV 5))"
  by (simp add: is_mapper_header_object wrap_mapper_t_def is_mapper_v_normal is_base_of_v_def
      operand_type_def unqualified_def copy_selected_def cpp_natives_def)

text \<open>
  C7.  An operator template is a candidate exactly when \<open>is_mapper_v\<close> holds of the
  type of an operand (lemma \<open>operator_template_candidate\<close>), and it is to return the
  composer that holds both operands, wrapped and not yet evaluated.  It does when both
  members can be initialised (lemma \<open>operator_template_builds\<close>).  For
  \<open>auto v = $val(5); $1 + v\<close>, and for \<open>auto n = -$1; n + 1\<close> and \<open>-n\<close>, the template
  is selected and its instantiation is ill-formed: no composer is returned.  With
  \<open>const auto v\<close> the composer is returned.
\<close>

theorem operator_on_a_mapper_lvalue_is_ill_formed:
  "is_mapper cpp_natives (Operand lvalue False (Mapper (value_mapper (IntV 5))))
   \<and> operator_binary cpp_natives Add
       (Operand lvalue True (Mapper dollar_1))
       (Operand lvalue False (Mapper (value_mapper (IntV 5))))
     = ill_formed
   \<and> operator_binary cpp_natives Add
       (Operand lvalue False (Mapper (unary_operator_mapper (argument_mapper 0) std_negate)))
       (Operand rvalue False (Plain (IntV 1)))
     = ill_formed
   \<and> operator_unary cpp_natives Neg
       (Operand lvalue False (Mapper (unary_operator_mapper (argument_mapper 0) std_negate)))
     = ill_formed
   \<and> operator_binary cpp_natives Add
       (Operand lvalue True (Mapper dollar_1))
       (Operand lvalue True (Mapper (value_mapper (IntV 5))))
     = built (binary_operator_mapper (argument_mapper 0) (value_mapper (IntV 5)) std_plus)"
  by (simp add: operator_binary_def operator_unary_def is_mapper_header_object
      is_mapper_other_object wrap_other_object copy_selected_def dollar_1_def del: wrap.simps
      add: wrap.simps(1))

text \<open>
  The examples of the specification, on rvalue arguments of type \<open>int\<close> and \<open>bool\<close>, and
  an operand of class \<open>base_mapper\<close>: the operator template accepts it and builds a
  composer that no argument list can invoke.
\<close>

lemma specification_examples:
  "operator_binary cpp_natives Add
     (Operand lvalue True (Mapper dollar_1)) (Operand rvalue False (Plain (IntV 5)))
     = built (binary_operator_mapper (argument_mapper 0) (value_mapper (IntV 5)) std_plus)"
  "set (map outcome_value
          (invoke_forwarded cpp_natives
             (binary_operator_mapper (argument_mapper 0) (value_mapper (IntV 5)) std_plus)
             [Reference rvalue False 0] (\<lambda>a. IntV 10)))
     = {Some (IntV 15)}"
  "set (map outcome_value
          (invoke_forwarded cpp_natives
             (binary_operator_mapper (argument_mapper 0) (argument_mapper 1) std_multiplies)
             [Reference rvalue False 0, Reference rvalue False 1]
             ((\<lambda>a. IntV 4)(0 := IntV 3))))
     = {Some (IntV 12)}"
  "set (map outcome_value
          (invoke_forwarded cpp_natives
             (binary_operator_mapper (argument_mapper 0) (argument_mapper 1) std_less)
             [Reference rvalue False 0, Reference rvalue False 1]
             ((\<lambda>a. IntV 3)(0 := IntV 2))))
     = {Some (BoolV True)}"
  "set (map outcome_value
          (invoke_forwarded cpp_natives
             (unary_operator_mapper (argument_mapper 0) std_negate)
             [Reference rvalue False 0] (\<lambda>a. IntV 7)))
     = {Some (IntV (- 7))}"
  "set (map outcome_value
          (invoke_forwarded cpp_natives
             (unary_operator_mapper (argument_mapper 0) std_logical_not)
             [Reference rvalue False 0] (\<lambda>a. BoolV True)))
     = {Some (BoolV False)}"
  by (simp_all add: operator_binary_def dollar_1_def is_mapper_header_object
      is_mapper_other_object wrap_other_object is_base_of_v_def del: wrap.simps
      add: wrap.simps(1) select_forwarded_eq second_operand_def apply_unary_def outcome_value_def cpp_natives_def
      call_binary_functor_def call_unary_functor_def int_value_def)

lemma marker_operand:
  "is_mapper cpp_natives (Operand rvalue False (Plain MarkerV))"
  "operator_binary cpp_natives Add
     (Operand rvalue False (Plain MarkerV)) (Operand rvalue False (Plain (IntV 1)))
     = built (binary_operator_mapper (foreign_mapper MarkerV) (value_mapper (IntV 1)) std_plus)"
  "set (map outcome_value
          (invoke_forwarded cpp_natives
             (binary_operator_mapper (foreign_mapper MarkerV) (value_mapper (IntV 1)) std_plus)
             refs st))
     = {None}"
  "operator_binary cpp_natives Add
     (Operand rvalue False (Plain (IntV 2))) (Operand rvalue False (Plain (IntV 1)))
     = not_a_candidate"
  by (simp_all add: operator_binary_def is_mapper_other_object wrap_other_object
      is_base_of_v_def second_operand_def outcome_value_def cpp_natives_def del: wrap.simps
      add: wrap.simps(1))

end
